theory Spec2Isabelle
  imports Main
begin

section \<open>Email QC bot: a shallow embedding of \<open>email_qc_bot.py\<close>\<close>

text \<open>
  Conventions. A Python \<open>str\<close> is modelled by its UTF-8 encoding, a \<open>string\<close> of
  bytes: every string operation of the program (\<open>split("_", 1)\<close>, the suffix test of
  \<open>glob\<close>, \<open>rfind(".")\<close>, concatenation, emptiness) acts on the encoding exactly as
  it acts on the code points, because the separators involved are ASCII. A path inside
  \<open>emails/\<close> is represented by its final component, the file name.

  Functions of libraries (\<open>json.loads\<close>, \<open>json.dumps\<close>, \<open>termcolor.colored\<close>, the
  chat-completion endpoint, \<open>requests.post\<close>, the clock) are not code of this program:
  they are fields of the environment record \<open>env\<close>, so every theorem holds for whatever
  these functions compute. The file system is the one of a POSIX host: \<open>glob\<close> compares
  names case-sensitively and matches names that start with a dot.

  A run is a call of \<open>main\<close>. The statements of the module that come before it
  (constructing the client, \<open>REPORT_DIR.mkdir(exist_ok=True)\<close>) have been executed
  when \<open>main\<close> starts; writing a report file is taken to succeed. A function with effects
  takes the state of the world and returns its result, \<open>Inl\<close> for a raised exception,
  together with the new state, which is kept when an exception is raised.
\<close>

subsection \<open>Text helpers\<close>

definition nbhyphen :: string where
  \<comment> \<open>U+2011, the non-breaking hyphen of the source's literals, in UTF-8\<close>
  "nbhyphen = [CHR 0xE2, CHR 0x80, CHR 0x91]"

definition endash :: string where
  \<comment> \<open>U+2013\<close>
  "endash = [CHR 0xE2, CHR 0x80, CHR 0x93]"

definition rarrow :: string where
  \<comment> \<open>U+2192\<close>
  "rarrow = [CHR 0xE2, CHR 0x86, CHR 0x92]"

definition endswith :: "string \<Rightarrow> string \<Rightarrow> bool" where
  \<comment> \<open>\<open>s.endswith(suf)\<close>\<close>
  "endswith s suf = (length suf \<le> length s \<and> drop (length s - length suf) s = suf)"

fun join :: "string \<Rightarrow> string list \<Rightarrow> string" where
  \<comment> \<open>\<open>sep.join(xs)\<close>\<close>
  "join sep [] = []"
| "join sep [x] = x"
| "join sep (x # y # ys) = x @ sep @ join sep (y # ys)"

definition py_split1 :: "char \<Rightarrow> string \<Rightarrow> string list" where
  \<comment> \<open>\<open>s.split(c, 1)\<close>: at most one split, at the first occurrence of the separator\<close>
  "py_split1 c s =
     (if c \<in> set s then [takeWhile (\<lambda>x. x \<noteq> c) s, tl (dropWhile (\<lambda>x. x \<noteq> c) s)]
      else [s])"

definition digit :: "nat \<Rightarrow> char" where
  "digit n = ''0123456789'' ! n"

fun str_nat :: "nat \<Rightarrow> string" where
  \<comment> \<open>\<open>str(n)\<close> for a non-negative integer: decimal, no leading zero\<close>
  "str_nat n = (if n < 10 then [digit n] else str_nat (n div 10) @ [digit (n mod 10)])"

declare str_nat.simps [simp del]

definition str_int :: "int \<Rightarrow> string" where
  "str_int i = (if i < 0 then CHR ''-'' # str_nat (nat (- i)) else str_nat (nat i))"

subsection \<open>File names: \<open>Path.stem\<close> and the event identifier\<close>

definition rfind_dot :: "string \<Rightarrow> nat option" where
  \<comment> \<open>\<open>name.rfind(".")\<close>, with \<open>None\<close> for Python's \<open>-1\<close>\<close>
  "rfind_dot name =
     (if CHR ''.'' \<in> set name
      then Some (length name - 1 - length (takeWhile (\<lambda>c. c \<noteq> CHR ''.'') (rev name)))
      else None)"

definition stem :: "string \<Rightarrow> string" where
  \<comment> \<open>\<open>pathlib\<close>: \<open>i = name.rfind(".")\<close>; the suffix is split off only when
      \<open>0 < i < len(name) - 1\<close>, otherwise the stem is the whole name\<close>
  "stem name =
     (case rfind_dot name of
        None \<Rightarrow> name
      | Some i \<Rightarrow> if 0 < i \<and> i < length name - 1 then take i name else name)"

definition extract_event_id :: "string \<Rightarrow> string" where
  \<comment> \<open>\<open>filename.stem.split("_", 1)[0]\<close>; the list is never empty\<close>
  "extract_event_id filename = hd (py_split1 (CHR ''_'') (stem filename))"

subsection \<open>JSON values, errors, effects\<close>

text \<open>
  The values \<open>json.loads\<close> returns and \<open>json.dumps\<close> accepts: \<open>None\<close>, \<open>bool\<close>,
  \<open>int\<close>, \<open>str\<close>, \<open>list\<close> and \<open>dict\<close> (an association list in insertion order).
  Floating-point numbers are left out of the model.
\<close>

datatype json =
    JNull
  | JBool bool
  | JInt int
  | JStr string
  | JList "json list"
  | JObj "(string \<times> json) list"

datatype error =
    FileNotFoundError string  \<comment> \<open>raised by \<open>load_events\<close> and \<open>gather_emails\<close>\<close>
  | AttributeError            \<comment> \<open>\<open>row.event_id\<close> without such a column; \<open>.get\<close> on a non-dict\<close>
  | TypeError                 \<comment> \<open>unhashable dictionary key; \<open>len\<close> of an unsized value\<close>
  | JSONDecodeError           \<comment> \<open>\<open>json.loads\<close> on a text that is not JSON\<close>
  | OSError                   \<comment> \<open>\<open>read_text\<close> on an entry that cannot be read\<close>
  | APIError                  \<comment> \<open>the chat-completion call raises\<close>
  | RequestException          \<comment> \<open>\<open>requests.post\<close> raises\<close>

datatype effect =
    PathExists string                          \<comment> \<open>\<open>Path.exists()\<close>\<close>
  | ReadCsv string                             \<comment> \<open>\<open>pd.read_csv\<close>\<close>
  | Glob string string                         \<comment> \<open>directory, pattern\<close>
  | ReadText string                            \<comment> \<open>path\<close>
  | ChatCompletion string "(string \<times> string) list" \<comment> \<open>model, messages (role, content)\<close>
  | WriteText string string                    \<comment> \<open>path, content\<close>
  | Print string
  | HttpPost string json                       \<comment> \<open>url, JSON body\<close>

type_synonym row = "(string \<times> string) list"

record env =
  event_csv :: "row list option"
    \<comment> \<open>\<open>None\<close>: \<open>events.csv\<close> does not exist; otherwise the rows of
        \<open>pd.read_csv(EVENT_CSV, dtype=str).fillna("")\<close>, each as (column, value) pairs\<close>
  email_dir :: "(string \<times> string option) list option"
    \<comment> \<open>\<open>None\<close>: \<open>emails/\<close> does not exist; otherwise its entries in listing order,
        each with its UTF-8 text (\<open>None\<close> when \<open>read_text\<close> raises on it)\<close>
  slack_webhook_url :: "string option"
    \<comment> \<open>\<open>os.getenv("SLACK_WEBHOOK_URL")\<close>\<close>
  chat_completions_create :: "nat \<Rightarrow> string \<Rightarrow> (string \<times> string) list \<Rightarrow> error + string"
    \<comment> \<open>the remote service: number of earlier calls, model, messages; the text of
        \<open>response.choices[0].message.content\<close>, or the exception raised\<close>
  requests_post :: "string \<Rightarrow> json \<Rightarrow> error option"
    \<comment> \<open>\<open>requests.post(url, json=body)\<close>: \<open>None\<close> when it returns\<close>
  json_loads :: "string \<Rightarrow> json option"
    \<comment> \<open>\<open>json.loads\<close>: \<open>None\<close> when it raises \<open>JSONDecodeError\<close>\<close>
  json_dumps :: "nat option \<Rightarrow> json \<Rightarrow> string"
    \<comment> \<open>\<open>json.dumps(obj, indent=...)\<close>\<close>
  colored :: "string \<Rightarrow> string \<Rightarrow> string"
    \<comment> \<open>\<open>termcolor.colored(text, color)\<close>\<close>
  py_repr :: "json \<Rightarrow> string"
    \<comment> \<open>\<open>str()\<close> of a list or dict\<close>
  utcnow_strftime :: string
    \<comment> \<open>\<open>datetime.utcnow().strftime("%Y-%m-%d %H:%M")\<close> (with the source's
        non-breaking hyphens)\<close>

record world =
  trace :: "effect list"         \<comment> \<open>what the run has done so far, oldest first\<close>
  reports :: "string \<rightharpoonup> string"  \<comment> \<open>the files of \<open>reports/\<close>: name to content\<close>

definition emit :: "effect \<Rightarrow> world \<Rightarrow> world" where
  "emit e w = w\<lparr>trace := trace w @ [e]\<rparr>"

fun is_chat :: "effect \<Rightarrow> bool" where
  "is_chat (ChatCompletion m ms) = True"
| "is_chat _ = False"

fun is_post :: "effect \<Rightarrow> bool" where
  "is_post (HttpPost u b) = True"
| "is_post _ = False"

fun is_write :: "effect \<Rightarrow> bool" where
  "is_write (WriteText p c) = True"
| "is_write _ = False"


fun touches_emails :: "effect \<Rightarrow> bool" where
  \<comment> \<open>an access to the draft directory or to a file in it\<close>
  "touches_emails (PathExists p) = (p = ''emails'')"
| "touches_emails (Glob d pat) = True"
| "touches_emails (ReadText p) = True"
| "touches_emails _ = False"

definition n_calls :: "world \<Rightarrow> nat" where
  "n_calls w = length (filter is_chat (trace w))"

subsection \<open>Constants of the program\<close>

definition EVENT_CSV :: string where
  "EVENT_CSV = ''events.csv''"

definition EMAIL_DIR :: string where
  "EMAIL_DIR = ''emails''"

definition REPORT_DIR :: string where
  "REPORT_DIR = ''reports''"

definition STYLE_RULES :: json where
  "STYLE_RULES = JObj [(''subject_max_chars'', JInt 55),
                       (''preview_max_chars'', JInt 120),
                       (''body_max_chars'', JInt 1800)]"

definition SYSTEM_PROMPT :: string where
  "SYSTEM_PROMPT =
     ''You are an email quality'' @ nbhyphen @ ''assurance assistant. '' @
     ''Given authoritative event metadata and an email draft, produce:'' @ [CHR 0x0A] @
     ''1. A list of factual errors (if any) '' @ endash @ '' cite the field.'' @ [CHR 0x0A] @
     ''2. Style warnings (length limits, missing links, branding tone).'' @ [CHR 0x0A] @
     ''3. A one'' @ nbhyphen @ ''sentence traffic'' @ nbhyphen @
     ''light summary: GREEN OK, YELLOW warnings, RED critical.'' @ [CHR 0x0A] @
     ''Respond as JSON with keys: errors, warnings, traffic_light.''"

subsection \<open>\<open>load_events\<close>\<close>

fun index_rows :: "row list \<Rightarrow> (string \<rightharpoonup> row) \<Rightarrow> error + (string \<rightharpoonup> row)" where
  \<comment> \<open>the dict comprehension \<open>{row.event_id: row.to_dict() for ...}\<close>: a later row
      replaces an earlier one with the same key\<close>
  "index_rows [] m = Inr m"
| "index_rows (r # rs) m =
     (case map_of r ''event_id'' of
        None \<Rightarrow> Inl AttributeError
      | Some k \<Rightarrow> index_rows rs (m(k \<mapsto> r)))"

definition load_events :: "env \<Rightarrow> world \<Rightarrow> (error + (string \<rightharpoonup> row)) \<times> world" where
  "load_events env w =
     (let w1 = emit (PathExists EVENT_CSV) w in
      case event_csv env of
        None \<Rightarrow>
          (Inl (FileNotFoundError (''events.csv not found '' @ endash @ '' create your source'' @
                  nbhyphen @ ''of'' @ nbhyphen @ ''truth file first.'')), w1)
      | Some rows \<Rightarrow> (index_rows rows Map.empty, emit (ReadCsv EVENT_CSV) w1))"

subsection \<open>\<open>gather_emails\<close>\<close>

definition glob :: "string list \<Rightarrow> string \<Rightarrow> string list" where
  \<comment> \<open>\<open>EMAIL_DIR.glob("*" + suf)\<close> over the listing: the entries directly inside
      the directory whose name ends with the suffix, in listing order\<close>
  "glob names suf = filter (\<lambda>n. endswith n suf) names"

definition gather_emails :: "env \<Rightarrow> world \<Rightarrow> (error + string list) \<times> world" where
  "gather_emails env w =
     (let w1 = emit (PathExists EMAIL_DIR) w in
      case email_dir env of
        None \<Rightarrow> (Inl (FileNotFoundError ''emails/ directory not found.''), w1)
      | Some entries \<Rightarrow>
          (Inr (glob (map fst entries) ''.md'' @ glob (map fst entries) ''.txt''),
           emit (Glob EMAIL_DIR ''*.txt'') (emit (Glob EMAIL_DIR ''*.md'') w1)))"

subsection \<open>\<open>call_llm\<close>\<close>

definition user_prompt :: "row \<Rightarrow> string \<Rightarrow> json" where
  "user_prompt event_meta email_text =
     JObj [(''event'', JObj (map (\<lambda>(k, v). (k, JStr v)) event_meta)),
           (''email'', JStr email_text),
           (''style_rules'', STYLE_RULES)]"

definition call_llm :: "env \<Rightarrow> row \<Rightarrow> string \<Rightarrow> world \<Rightarrow> (error + json) \<times> world" where
  \<comment> \<open>the request's \<open>temperature=0.0\<close> is not recorded\<close>
  "call_llm env event_meta email_text w =
     (let messages = [(''system'', SYSTEM_PROMPT),
                      (''user'', json_dumps env None (user_prompt event_meta email_text))];
          w1 = emit (ChatCompletion ''gpt-4o-mini'' messages) w
      in case chat_completions_create env (n_calls w) ''gpt-4o-mini'' messages of
           Inl e \<Rightarrow> (Inl e, w1)
         | Inr content \<Rightarrow>
             (case json_loads env content of
                None \<Rightarrow> (Inl JSONDecodeError, w1)
              | Some report \<Rightarrow> (Inr report, w1)))"

subsection \<open>\<open>colour_light\<close>, \<open>send_slack\<close>\<close>

fun hashable :: "json \<Rightarrow> bool" where
  "hashable (JList xs) = False"
| "hashable (JObj kvs) = False"
| "hashable _ = True"

definition colour_light :: "env \<Rightarrow> json \<Rightarrow> error + json" where
  \<comment> \<open>\<open>{...}.get(light, light)\<close>: hashing an unhashable key raises \<open>TypeError\<close>;
      only the \<open>str\<close> values GREEN, YELLOW, RED are keys of the dictionary\<close>
  "colour_light env light =
     (if \<not> hashable light then Inl TypeError
      else if light = JStr ''GREEN'' then Inr (JStr (colored env ''GREEN'' ''green''))
      else if light = JStr ''YELLOW'' then Inr (JStr (colored env ''YELLOW'' ''yellow''))
      else if light = JStr ''RED'' then Inr (JStr (colored env ''RED'' ''red''))
      else Inr light)"

definition truthy :: "string option \<Rightarrow> bool" where
  \<comment> \<open>the truth value of \<open>os.getenv(...)\<close>: neither \<open>None\<close> nor empty\<close>
  "truthy v = (case v of None \<Rightarrow> False | Some s \<Rightarrow> s \<noteq> [])"

definition send_slack :: "env \<Rightarrow> string \<Rightarrow> world \<Rightarrow> (error + unit) \<times> world" where
  "send_slack env message w =
     (case slack_webhook_url env of
        None \<Rightarrow> (Inr (), w)
      | Some webhook \<Rightarrow>
          if webhook = [] then (Inr (), w)
          else (let body = JObj [(''text'', JStr message)];
                    w1 = emit (HttpPost webhook body) w
                in case requests_post env webhook body of
                     None \<Rightarrow> (Inr (), w1)
                   | Some e \<Rightarrow> (Inl e, w1)))"

subsection \<open>\<open>main\<close>\<close>

definition read_text :: "env \<Rightarrow> string \<Rightarrow> world \<Rightarrow> (error + string) \<times> world" where
  \<comment> \<open>\<open>f.read_text(encoding="utf-8")\<close> for the entry \<open>name\<close> of \<open>emails/\<close>\<close>
  "read_text env name w =
     (let w1 = emit (ReadText (EMAIL_DIR @ ''/'' @ name)) w in
      case email_dir env of
        None \<Rightarrow> (Inl OSError, w1)
      | Some entries \<Rightarrow>
          (case map_of entries name of
             Some (Some text) \<Rightarrow> (Inr text, w1)
           | _ \<Rightarrow> (Inl OSError, w1)))"

definition report_name :: "string \<Rightarrow> string" where
  \<comment> \<open>\<open>f"{f.stem}_report.json"\<close>\<close>
  "report_name f = stem f @ ''_report.json''"

definition write_report :: "string \<Rightarrow> string \<Rightarrow> world \<Rightarrow> world" where
  \<comment> \<open>\<open>(REPORT_DIR / name).write_text(content)\<close>: creates or overwrites the file\<close>
  "write_report name content w =
     emit (WriteText (REPORT_DIR @ ''/'' @ name) content) (w\<lparr>reports := (reports w)(name \<mapsto> content)\<rparr>)"

definition dict_get :: "(string \<times> json) list \<Rightarrow> string \<Rightarrow> json \<Rightarrow> json" where
  \<comment> \<open>\<open>d.get(key, default)\<close>\<close>
  "dict_get kvs k d = (case map_of kvs k of None \<Rightarrow> d | Some v \<Rightarrow> v)"

definition len_str :: "string \<Rightarrow> nat" where
  \<comment> \<open>\<open>len\<close> of a \<open>str\<close> counts code points: the bytes that are not UTF-8
      continuation bytes (\<open>0x80..0xBF\<close>)\<close>
  "len_str s = length (filter (\<lambda>c. \<not> (128 \<le> (of_char c :: nat) \<and> (of_char c :: nat) < 192)) s)"

fun py_len :: "json \<Rightarrow> error + nat" where
  "py_len (JList xs) = Inr (length xs)"
| "py_len (JObj kvs) = Inr (length (remdups (map fst kvs)))"
| "py_len (JStr s) = Inr (len_str s)"
| "py_len _ = Inl TypeError"

fun py_str :: "env \<Rightarrow> json \<Rightarrow> string" where
  \<comment> \<open>\<open>str(v)\<close>, as the f-strings apply it\<close>
  "py_str env (JStr s) = s"
| "py_str env (JInt i) = str_int i"
| "py_str env (JBool b) = (if b then ''True'' else ''False'')"
| "py_str env JNull = ''None''"
| "py_str env v = py_repr env v"

definition cli_summary :: "env \<Rightarrow> string \<Rightarrow> json \<Rightarrow> error + string \<times> json" where
  \<comment> \<open>lines 120-121: the traffic light (the source's \<open>tl\<close>) and the printed line; \<open>.get\<close> on a
      reply that is not a dict raises \<open>AttributeError\<close>\<close>
  "cli_summary env name report =
     (case report of
        JObj kvs \<Rightarrow>
          (let light = dict_get kvs ''traffic_light'' (JStr ''?'') in
           case colour_light env light of
             Inl e \<Rightarrow> Inl e
           | Inr shown \<Rightarrow>
               (case py_len (dict_get kvs ''errors'' (JList [])) of
                  Inl e \<Rightarrow> Inl e
                | Inr n_err \<Rightarrow>
                    (case py_len (dict_get kvs ''warnings'' (JList [])) of
                       Inl e \<Rightarrow> Inl e
                     | Inr n_warn \<Rightarrow>
                         Inr (name @ '': '' @ py_str env shown @ '' '' @ endash @ '' '' @
                              str_nat n_err @ '' errors, '' @ str_nat n_warn @ '' warnings'',
                              light))))
      | _ \<Rightarrow> Inl AttributeError)"

definition skip_notice :: "env \<Rightarrow> string \<Rightarrow> string \<Rightarrow> string" where
  "skip_notice env name event_id =
     colored env (''[SKIP] '' @ name @ '': event_id '' @ [CHR 0x27] @ event_id @ [CHR 0x27] @
                  '' not in events.csv'') ''red''"

definition process_email ::
  "env \<Rightarrow> (string \<rightharpoonup> row) \<Rightarrow> string \<Rightarrow> (string \<times> json) list \<Rightarrow> world
     \<Rightarrow> (error + (string \<times> json) list) \<times> world" where
  \<comment> \<open>the body of the \<open>for\<close> loop, for the draft \<open>f\<close>; \<open>overall\<close> is the list
      accumulated so far\<close>
  "process_email env events f overall w =
     (let event_id = extract_event_id f in
      case events event_id of
        None \<Rightarrow> (Inr overall, emit (Print (skip_notice env f event_id)) w)
      | Some event_meta \<Rightarrow>
          (case read_text env f w of
             (Inl e, w1) \<Rightarrow> (Inl e, w1)
           | (Inr email_text, w1) \<Rightarrow>
               (case call_llm env event_meta email_text w1 of
                  (Inl e, w2) \<Rightarrow> (Inl e, w2)
                | (Inr report, w2) \<Rightarrow>
                    (let w3 = write_report (report_name f) (json_dumps env (Some 2) report) w2 in
                     case cli_summary env f report of
                       Inl e \<Rightarrow> (Inl e, w3)
                     | Inr (line, light) \<Rightarrow> (Inr (overall @ [(f, light)]), emit (Print line) w3)))))"

fun main_loop ::
  "env \<Rightarrow> (string \<rightharpoonup> row) \<Rightarrow> string list \<Rightarrow> (string \<times> json) list \<Rightarrow> world
     \<Rightarrow> (error + (string \<times> json) list) \<times> world" where
  "main_loop env events [] overall w = (Inr overall, w)"
| "main_loop env events (f # fs) overall w =
     (case process_email env events f overall w of
        (Inl e, w1) \<Rightarrow> (Inl e, w1)
      | (Inr overall1, w1) \<Rightarrow> main_loop env events fs overall1 w1)"

definition summary_lines :: "env \<Rightarrow> (string \<times> json) list \<Rightarrow> string list" where
  \<comment> \<open>\<open>[f"*{name}* -> {tl}" for name, tl in overall]\<close>\<close>
  "summary_lines env overall =
     map (\<lambda>(name, light). ''*'' @ name @ ''* '' @ rarrow @ '' '' @ py_str env light) overall"

definition summary_header :: "env \<Rightarrow> string" where
  "summary_header env = ''QC Summary ('' @ utcnow_strftime env @ ''):'' @ [CHR 0x0A]"

definition summary_message :: "env \<Rightarrow> (string \<times> json) list \<Rightarrow> string" where
  "summary_message env overall = summary_header env @ join [CHR 0x0A] (summary_lines env overall)"

definition main :: "env \<Rightarrow> world \<Rightarrow> (error + unit) \<times> world" where
  "main env w =
     (case load_events env w of
        (Inl e, w1) \<Rightarrow> (Inl e, w1)
      | (Inr events, w1) \<Rightarrow>
          (case gather_emails env w1 of
             (Inl e, w2) \<Rightarrow> (Inl e, w2)
           | (Inr email_files, w2) \<Rightarrow>
               (case main_loop env events email_files [] w2 of
                  (Inl e, w3) \<Rightarrow> (Inl e, w3)
                | (Inr overall, w3) \<Rightarrow>
                    if truthy (slack_webhook_url env)
                    then send_slack env (summary_message env overall) w3
                    else (Inr (), w3))))"

subsection \<open>A concrete environment for the closed examples\<close>

text \<open>
  The closed examples below run the program in a small concrete environment. Its
  \<open>json.dumps\<close> is \<open>sample_dumps\<close>, which prints as Python does on values whose strings
  are printable ASCII (quotes, backslashes and line feeds escaped); its \<open>json.loads\<close> is a
  table of the replies used; its \<open>colored\<close> wraps the text in the ANSI colour codes.
\<close>

definition quote :: "string \<Rightarrow> string" where
  "quote s =
     ''\"'' @ concat (map (\<lambda>c. if c = CHR ''\"'' then [CHR 0x5C, CHR ''\"'']
                              else if c = CHR 0x5C then [CHR 0x5C, CHR 0x5C]
                              else if c = CHR 0x0A then [CHR 0x5C, CHR ''n'']
                              else [c]) s) @ ''\"''"

definition newline_indent :: "nat option \<Rightarrow> nat \<Rightarrow> string" where
  "newline_indent ind lvl =
     (case ind of None \<Rightarrow> [] | Some n \<Rightarrow> CHR 0x0A # replicate (n * lvl) CHR '' '')"

definition item_separator :: "nat option \<Rightarrow> nat \<Rightarrow> string" where
  "item_separator ind lvl =
     (case ind of None \<Rightarrow> '', '' | Some n \<Rightarrow> '','' @ newline_indent ind lvl)"

fun dumps_at :: "nat option \<Rightarrow> nat \<Rightarrow> json \<Rightarrow> string" where
  "dumps_at ind lvl JNull = ''null''"
| "dumps_at ind lvl (JBool b) = (if b then ''true'' else ''false'')"
| "dumps_at ind lvl (JInt i) = str_int i"
| "dumps_at ind lvl (JStr s) = quote s"
| "dumps_at ind lvl (JList xs) =
     (if xs = [] then ''[]''
      else ''['' @ newline_indent ind (Suc lvl) @
           join (item_separator ind (Suc lvl)) (map (dumps_at ind (Suc lvl)) xs) @
           newline_indent ind lvl @ '']'')"
| "dumps_at ind lvl (JObj kvs) =
     (if kvs = [] then ''{}''
      else ''{'' @ newline_indent ind (Suc lvl) @
           join (item_separator ind (Suc lvl))
             (map (\<lambda>kv. quote (fst kv) @ '': '' @ dumps_at ind (Suc lvl) (snd kv)) kvs) @
           newline_indent ind lvl @ ''}'')"

definition sample_dumps :: "nat option \<Rightarrow> json \<Rightarrow> string" where
  "sample_dumps ind j = dumps_at ind 0 j"

definition sample_colored :: "string \<Rightarrow> string \<Rightarrow> string" where
  "sample_colored text colour =
     [CHR 0x1B] @ ''['' @
     (if colour = ''red'' then ''31'' else if colour = ''green'' then ''32'' else ''33'') @
     ''m'' @ text @ [CHR 0x1B] @ ''[0m''"

definition reply_yellow :: string where
  "reply_yellow = ''{\"errors\": [], \"warnings\": [\"long subject\"], \"traffic_light\": \"YELLOW\"}''"

definition reply_blue :: string where
  "reply_blue = ''{\"errors\": [\"wrong date\"], \"warnings\": [], \"traffic_light\": \"BLUE\"}''"

definition reply_partial :: string where
  "reply_partial = ''{\"errors\": [\"wrong date\"]}''"

definition sample_loads :: "string \<Rightarrow> json option" where
  "sample_loads text =
     map_of
       [(reply_yellow, JObj [(''errors'', JList []),
                             (''warnings'', JList [JStr ''long subject'']),
                             (''traffic_light'', JStr ''YELLOW'')]),
        (reply_blue, JObj [(''errors'', JList [JStr ''wrong date'']),
                           (''warnings'', JList []),
                           (''traffic_light'', JStr ''BLUE'')]),
        (reply_partial, JObj [(''errors'', JList [JStr ''wrong date''])]),
        (''{}'', JObj []),
        (''[]'', JList [])] text"

definition sample_env :: env where
  "sample_env =
     \<lparr> event_csv = Some [[(''event_id'', ''EVT23''), (''title'', ''Launch'')]],
       email_dir = Some [(''EVT23_invite_v1.md'', Some ''Join us!''),
                         (''notes.rst'', Some ''internal''),
                         (''noUnderscore.txt'', Some ''Hello'')],
       slack_webhook_url = Some ''https://hooks.example/T1'',
       chat_completions_create = (\<lambda>n model messages. Inr reply_yellow),
       requests_post = (\<lambda>url body. None),
       json_loads = sample_loads,
       json_dumps = sample_dumps,
       colored = sample_colored,
       py_repr = sample_dumps None,
       utcnow_strftime = ''2024'' @ nbhyphen @ ''05'' @ nbhyphen @ ''01 09:30'' \<rparr>"

definition world0 :: world where
  \<comment> \<open>a fresh run: nothing done yet, \<open>reports/\<close> empty\<close>
  "world0 = \<lparr> trace = [], reports = Map.empty \<rparr>"

definition sample_events :: "string \<rightharpoonup> row" where
  \<comment> \<open>the event mapping \<open>load_events\<close> builds in \<open>sample_env\<close>\<close>
  "sample_events = [''EVT23'' \<mapsto> [(''event_id'', ''EVT23''), (''title'', ''Launch'')]]"

definition env_no_drafts :: env where
  \<comment> \<open>\<open>emails/\<close> exists and holds no \<open>.md\<close> or \<open>.txt\<close> file\<close>
  "env_no_drafts = sample_env\<lparr>email_dir := Some [(''notes.rst'', Some ''internal'')]\<rparr>"


definition env_bad_reply :: env where
  \<comment> \<open>three drafts; the second reply of the service is not JSON\<close>
  "env_bad_reply =
     sample_env\<lparr>email_dir := Some [(''EVT23_a.md'', Some ''Join us!''),
                                  (''EVT23_b.md'', Some ''Hurry''),
                                  (''EVT23_c.txt'', Some ''Last call'')],
                 chat_completions_create :=
                   (\<lambda>n model messages. if n = 0 then Inr reply_yellow
                                        else Inr ''Sorry, I cannot help.'')\<rparr>"

definition env_reply :: "string \<Rightarrow> env" where
  \<comment> \<open>\<open>sample_env\<close> with a service that always replies with the given text\<close>
  "env_reply content = sample_env\<lparr>chat_completions_create := (\<lambda>n model messages. Inr content)\<rparr>"

definition has_exactly_three_keys :: "json \<Rightarrow> bool" where
  \<comment> \<open>the shape the specification gives a report: an object with exactly the keys
      \<open>errors\<close>, \<open>warnings\<close> and \<open>traffic_light\<close>\<close>
  "has_exactly_three_keys j =
     (case j of
        JObj kvs \<Rightarrow> distinct (map fst kvs) \<and>
                    set (map fst kvs) = {''errors'', ''warnings'', ''traffic_light''}
      | _ \<Rightarrow> False)"

subsection \<open>The effects of one draft\<close>



section \<open>Properties\<close>

subsection \<open>Helper lemmas\<close>

lemma py_split1_nonempty: "py_split1 c s \<noteq> []"
  by (simp add: py_split1_def)

lemma hd_py_split1: "hd (py_split1 c s) = takeWhile (\<lambda>x. x \<noteq> c) s"
proof (cases "c \<in> set s")
  case True
  then show ?thesis by (simp add: py_split1_def)
next
  case False
  then have "\<forall>x\<in>set s. x \<noteq> c"
    by blast
  then have "takeWhile (\<lambda>x. x \<noteq> c) s = s"
    by (rule takeWhile_eq_all_conv[THEN iffD2])
  then have "hd [s] = takeWhile (\<lambda>x. x \<noteq> c) s"
    by (simp only: list.sel)
  with False show ?thesis by (simp only: py_split1_def if_False)
qed

lemma rfind_dot_append:
  assumes "CHR ''.'' \<notin> set ext"
  shows "rfind_dot (base @ ''.'' @ ext) = Some (length base)"
proof -
  have "takeWhile (\<lambda>c. c \<noteq> CHR ''.'') (ys @ CHR ''.'' # zs) = ys"
    if "CHR ''.'' \<notin> set ys" for ys zs :: string
    using that by (induction ys) auto
  then have "takeWhile (\<lambda>c. c \<noteq> CHR ''.'') (rev ext @ CHR ''.'' # rev base) = rev ext"
    using assms by simp
  then show ?thesis
    by (simp add: rfind_dot_def)
qed

lemma stem_append:
  assumes "base \<noteq> []" and "ext \<noteq> []" and "CHR ''.'' \<notin> set ext"
  shows "stem (base @ ''.'' @ ext) = base"
proof -
  have "rfind_dot (base @ ''.'' @ ext) = Some (length base)"
    using assms(3) by (rule rfind_dot_append)
  moreover have "0 < length base" "length base < length (base @ ''.'' @ ext) - 1"
    using assms(1,2) by (cases ext; simp)+
  ultimately show ?thesis
    by (simp add: stem_def)
qed

lemma takeWhile_dropWhile_sep:
  assumes "c \<in> set s"
  shows "s = takeWhile (\<lambda>x. x \<noteq> c) s @ c # tl (dropWhile (\<lambda>x. x \<noteq> c) s)"
proof -
  have "dropWhile (\<lambda>x. x \<noteq> c) s \<noteq> []"
    using assms by (simp add: dropWhile_eq_Nil_conv)
  moreover have "hd (dropWhile (\<lambda>x. x \<noteq> c) s) = c"
    using assms hd_dropWhile[of "\<lambda>x. x \<noteq> c" s] calculation by blast
  ultimately have "dropWhile (\<lambda>x. x \<noteq> c) s = c # tl (dropWhile (\<lambda>x. x \<noteq> c) s)"
    by (metis list.collapse)
  then show ?thesis
    by (metis takeWhile_dropWhile_id)
qed

lemma trace_emit: "trace (emit e w) = trace w @ [e]"
  by (simp add: emit_def)

lemma reports_emit: "reports (emit e w) = reports w"
  by (simp add: emit_def)

lemma trace_write_report:
  "trace (write_report n c w) = trace w @ [WriteText (REPORT_DIR @ ''/'' @ n) c]"
  by (simp add: write_report_def emit_def)

lemma reports_write_report: "reports (write_report n c w) = (reports w)(n \<mapsto> c)"
  by (simp add: write_report_def emit_def)

lemma read_text_world: "read_text env f w = (r, w1) \<Longrightarrow> w1 = emit (ReadText (EMAIL_DIR @ ''/'' @ f)) w"
  by (auto simp: read_text_def Let_def split: option.splits)

lemma call_llm_world:
  "call_llm env m t w = (r, w1) \<Longrightarrow>
     w1 = emit (ChatCompletion ''gpt-4o-mini''
            [(''system'', SYSTEM_PROMPT), (''user'', json_dumps env None (user_prompt m t))]) w"
  by (auto simp: call_llm_def Let_def split: sum.splits option.splits)

lemma process_email_trace:
  assumes "process_email env events f ov w = (r, w')"
  shows "\<exists>es. trace w' = trace w @ es \<and> (\<forall>e\<in>set es. \<not> is_post e)"
proof (cases "events (extract_event_id f)")
  case None
  with assms show ?thesis
    by (auto simp: process_email_def Let_def trace_emit)
next
  case (Some m)
  obtain r1 w1 where rt: "read_text env f w = (r1, w1)" by force
  then have w1: "w1 = emit (ReadText (EMAIL_DIR @ ''/'' @ f)) w" by (rule read_text_world)
  show ?thesis
  proof (cases r1)
    case (Inl e)
    with assms Some rt w1 show ?thesis
      by (auto simp: process_email_def Let_def trace_emit)
  next
    case (Inr body)
    obtain r2 w2 where cl: "call_llm env m body w1 = (r2, w2)" by force
    note w2 = call_llm_world[OF cl]
    show ?thesis
    proof (cases r2)
      case (Inl e)
      with assms Some rt Inr cl w1 w2 show ?thesis
        by (auto simp: process_email_def Let_def trace_emit)
    next
      case (Inr report)
      with assms Some rt \<open>r1 = Inr body\<close> cl w1 w2 show ?thesis
        by (auto simp: process_email_def Let_def trace_emit trace_write_report split: sum.splits)
    qed
  qed
qed

lemma main_loop_trace:
  "main_loop env events fs ov w = (r, w') \<Longrightarrow>
     \<exists>es. trace w' = trace w @ es \<and> (\<forall>e\<in>set es. \<not> is_post e)"
proof (induction fs arbitrary: ov w)
  case Nil
  then show ?case by simp
next
  case (Cons f fs)
  obtain r1 w1 where p: "process_email env events f ov w = (r1, w1)" by force
  from process_email_trace[OF p] obtain es1 where
    es1: "trace w1 = trace w @ es1" "\<forall>e\<in>set es1. \<not> is_post e" by blast
  show ?case
  proof (cases r1)
    case (Inl e)
    with Cons.prems p es1 show ?thesis by auto
  next
    case (Inr ov1)
    with Cons.prems p have "main_loop env events fs ov1 w1 = (r, w')" by simp
    from Cons.IH[OF this] obtain es2 where
      "trace w' = trace w1 @ es2" "\<forall>e\<in>set es2. \<not> is_post e" by blast
    with es1 have "trace w' = trace w @ (es1 @ es2) \<and> (\<forall>e\<in>set (es1 @ es2). \<not> is_post e)"
      by auto
    then show ?thesis by blast
  qed
qed

lemma main_loop_append:
  "main_loop env events (xs @ ys) ov w =
     (case main_loop env events xs ov w of
        (Inl e, w1) \<Rightarrow> (Inl e, w1)
      | (Inr ov1, w1) \<Rightarrow> main_loop env events ys ov1 w1)"
  by (induction xs arbitrary: ov w) (auto split: prod.splits sum.splits)

lemma glob_none:
  assumes "\<forall>n\<in>set names. \<not> endswith n suf"
  shows "glob names suf = []"
  using assms by (simp add: glob_def filter_empty_conv)

lemma str_nat_0: "str_nat 0 = ''0''"
  by (simp add: str_nat.simps digit_def)

lemma process_email_reported:
  assumes "events (extract_event_id f) = Some event_meta"
      and "read_text env f w = (Inr email_text, w1)"
      and "call_llm env event_meta email_text w1 = (Inr report, w2)"
  shows "process_email env events f overall w =
           (case cli_summary env f report of
              Inl e \<Rightarrow> (Inl e, write_report (stem f @ ''_report.json'')
                                  (json_dumps env (Some 2) report) w2)
            | Inr (line, light) \<Rightarrow>
                (Inr (overall @ [(f, light)]),
                 emit (Print line) (write_report (stem f @ ''_report.json'')
                                      (json_dumps env (Some 2) report) w2)))"
  using assms by (simp add: process_email_def Let_def report_name_def split: sum.splits)








subsection \<open>C4: the identifier of a draft\<close>

text \<open>
  C4. For every draft file name, the derived identifier is the file name without its
  extension (\<open>Path.stem\<close>; for a name \<open>base.ext\<close> with a non-empty base and a
  non-empty, dot-free extension that is \<open>base\<close>), truncated at the first underscore: when
  the stem has an underscore, the stem is the identifier, then an underscore, then the rest,
  and the identifier has no underscore; when the stem has none, the identifier is the
  whole stem. \<open>EVT23_invite_v1.md\<close> yields \<open>EVT23\<close>, \<open>noUnderscore.txt\<close> yields
  \<open>noUnderscore\<close>.
\<close>

theorem extract_event_id_spec:
  "(CHR ''_'' \<in> set (stem name) \<longrightarrow>
      (\<exists>rest. stem name = extract_event_id name @ CHR ''_'' # rest) \<and>
      CHR ''_'' \<notin> set (extract_event_id name))
   \<and> (CHR ''_'' \<notin> set (stem name) \<longrightarrow> extract_event_id name = stem name)
   \<and> (base \<noteq> [] \<and> ext \<noteq> [] \<and> CHR ''.'' \<notin> set ext \<longrightarrow>
        stem (base @ ''.'' @ ext) = base \<and>
        extract_event_id (base @ ''.'' @ ext) = takeWhile (\<lambda>c. c \<noteq> CHR ''_'') base)
   \<and> extract_event_id ''EVT23_invite_v1.md'' = ''EVT23''
   \<and> extract_event_id ''noUnderscore.txt'' = ''noUnderscore''"
proof -
  have id: "extract_event_id n = takeWhile (\<lambda>c. c \<noteq> CHR ''_'') (stem n)" for n
    by (simp only: extract_event_id_def hd_py_split1)
  have a: "CHR ''_'' \<in> set (stem name) \<longrightarrow>
      (\<exists>rest. stem name = extract_event_id name @ CHR ''_'' # rest) \<and>
      CHR ''_'' \<notin> set (extract_event_id name)"
  proof
    assume u: "CHR ''_'' \<in> set (stem name)"
    have "stem name = extract_event_id name @ CHR ''_'' #
            tl (dropWhile (\<lambda>x. x \<noteq> CHR ''_'') (stem name))"
      using takeWhile_dropWhile_sep[OF u] by (simp only: id)
    moreover have "CHR ''_'' \<notin> set (extract_event_id name)"
      unfolding id by (metis (mono_tags, lifting) set_takeWhileD)
    ultimately show "(\<exists>rest. stem name = extract_event_id name @ CHR ''_'' # rest) \<and>
      CHR ''_'' \<notin> set (extract_event_id name)"
      by blast
  qed
  have b: "CHR ''_'' \<notin> set (stem name) \<longrightarrow> extract_event_id name = stem name"
  proof
    assume "CHR ''_'' \<notin> set (stem name)"
    then have "\<forall>x\<in>set (stem name). x \<noteq> CHR ''_''"
      by blast
    then have "takeWhile (\<lambda>c. c \<noteq> CHR ''_'') (stem name) = stem name"
      by (rule takeWhile_eq_all_conv[THEN iffD2])
    then show "extract_event_id name = stem name"
      by (simp only: id)
  qed
  have c: "base \<noteq> [] \<and> ext \<noteq> [] \<and> CHR ''.'' \<notin> set ext \<longrightarrow>
        stem (base @ ''.'' @ ext) = base \<and>
        extract_event_id (base @ ''.'' @ ext) = takeWhile (\<lambda>c. c \<noteq> CHR ''_'') base"
  proof
    assume h: "base \<noteq> [] \<and> ext \<noteq> [] \<and> CHR ''.'' \<notin> set ext"
    then have st: "stem (base @ ''.'' @ ext) = base"
      using stem_append[of base ext] by blast
    have "extract_event_id (base @ ''.'' @ ext) = takeWhile (\<lambda>c. c \<noteq> CHR ''_'') base"
      by (simp only: id st)
    with st show "stem (base @ ''.'' @ ext) = base \<and>
        extract_event_id (base @ ''.'' @ ext) = takeWhile (\<lambda>c. c \<noteq> CHR ''_'') base"
      by blast
  qed
  have d: "extract_event_id ''EVT23_invite_v1.md'' = ''EVT23''"
    by (simp add: extract_event_id_def stem_def rfind_dot_def py_split1_def)
  have e: "extract_event_id ''noUnderscore.txt'' = ''noUnderscore''"
    by (simp add: extract_event_id_def stem_def rfind_dot_def py_split1_def)
  from a b c d e show ?thesis
    by blast
qed

theorem extract_event_id_spec_witness:
  "CHR ''_'' \<in> set (stem ''EVT23_invite_v1.md'')
   \<and> (\<exists>rest. stem ''EVT23_invite_v1.md'' = extract_event_id ''EVT23_invite_v1.md'' @ CHR ''_'' # rest)
   \<and> CHR ''_'' \<notin> set (stem ''noUnderscore.txt'')
   \<and> extract_event_id ''noUnderscore.txt'' = stem ''noUnderscore.txt''
   \<and> ''EVT23_invite_v1'' \<noteq> [] \<and> ''md'' \<noteq> [] \<and> CHR ''.'' \<notin> set ''md''
   \<and> stem (''EVT23_invite_v1'' @ ''.'' @ ''md'') = ''EVT23_invite_v1''
   \<and> extract_event_id (''EVT23_invite_v1'' @ ''.'' @ ''md'') = ''EVT23''"
proof -
  have u: "CHR ''_'' \<in> set (stem ''EVT23_invite_v1.md'')"
    by (simp add: stem_def rfind_dot_def)
  have n: "CHR ''_'' \<notin> set (stem ''noUnderscore.txt'')"
    by (simp add: stem_def rfind_dot_def)
  have h: "''EVT23_invite_v1'' \<noteq> [] \<and> ''md'' \<noteq> [] \<and> CHR ''.'' \<notin> set ''md''"
    by simp
  show ?thesis
    using u n h
      extract_event_id_spec[of "''EVT23_invite_v1.md''" "''EVT23_invite_v1''" "''md''"]
      extract_event_id_spec[of "''noUnderscore.txt''" "''EVT23_invite_v1''" "''md''"]
    by simp
qed

subsection \<open>C2: a draft without a matching event record\<close>

text \<open>
  C2. Take a draft \<open>f\<close> whose derived identifier is not a key of the event mapping, at any
  position of the collected list (\<open>pre\<close> before it, processed without error, \<open>rest\<close>
  after it). The loop body returns without error and leaves the accumulated list as it
  was; the only effect is one printed notice, so no remote call is made and no report file
  is written or changed; and the loop goes on with the remaining drafts \<open>rest\<close>.
\<close>

theorem unmatched_draft_skipped:
  assumes "events (extract_event_id f) = None"
      and "main_loop env events pre overall0 w0 = (Inr overall, w)"
  shows "process_email env events f overall w =
           (Inr overall, emit (Print (skip_notice env f (extract_event_id f))) w)
       \<and> main_loop env events (pre @ f # rest) overall0 w0 =
           main_loop env events rest overall (emit (Print (skip_notice env f (extract_event_id f))) w)
       \<and> reports (emit (Print (skip_notice env f (extract_event_id f))) w) = reports w
       \<and> trace (emit (Print (skip_notice env f (extract_event_id f))) w) =
           trace w @ [Print (skip_notice env f (extract_event_id f))]"
proof -
  have p: "process_email env events f overall w =
           (Inr overall, emit (Print (skip_notice env f (extract_event_id f))) w)"
    using assms(1) by (simp add: process_email_def Let_def)
  have "main_loop env events (pre @ f # rest) overall0 w0 =
          main_loop env events (f # rest) overall w"
    using assms(2) by (simp add: main_loop_append)
  with p show ?thesis
    by (simp add: trace_emit reports_emit)
qed

theorem unmatched_draft_skipped_witness:
  "[''EVT23'' \<mapsto> [(''event_id'', ''EVT23''), (''title'', ''Launch'')]]
      (extract_event_id ''noUnderscore.txt'') = None
   \<and> main_loop sample_env [''EVT23'' \<mapsto> [(''event_id'', ''EVT23''), (''title'', ''Launch'')]]
        [] [] world0 = (Inr [], world0)
   \<and> main_loop sample_env [''EVT23'' \<mapsto> [(''event_id'', ''EVT23''), (''title'', ''Launch'')]]
        ([] @ ''noUnderscore.txt'' # []) [] world0 =
       (Inr [], emit (Print (skip_notice sample_env ''noUnderscore.txt'' ''noUnderscore'')) world0)"
proof -
  have id: "extract_event_id ''noUnderscore.txt'' = ''noUnderscore''"
    by (simp add: extract_event_id_def stem_def rfind_dot_def py_split1_def)
  have a: "[''EVT23'' \<mapsto> [(''event_id'', ''EVT23''), (''title'', ''Launch'')]]
      (extract_event_id ''noUnderscore.txt'') = None"
    by (simp add: id)
  have b: "main_loop sample_env [''EVT23'' \<mapsto> [(''event_id'', ''EVT23''), (''title'', ''Launch'')]]
        [] [] world0 = (Inr [], world0)"
    by simp
  show ?thesis
    using unmatched_draft_skipped[OF a b, of "[]"] a b by (simp add: id)
qed

subsection \<open>C3: the request sent to the text-generation service\<close>

text \<open>
  C3. For every event record and draft text, \<open>call_llm\<close> makes exactly one request; its
  user message is \<open>json.dumps\<close> of the object that holds the event record under
  \<open>event\<close>, the draft text under \<open>email\<close> and the thresholds 55, 120 and 1800
  under \<open>style_rules\<close>. For the record \<open>{id: "EVT1", title: "Launch"}\<close> and the text
  \<open>"Join us!"\<close> the payload is the text shown, which contains both and the three
  numbers literally.
\<close>

theorem request_payload:
  "snd (call_llm env event_meta email_text w) =
     emit (ChatCompletion ''gpt-4o-mini''
            [(''system'', SYSTEM_PROMPT),
             (''user'', json_dumps env None
                (JObj [(''event'', JObj (map (\<lambda>(k, v). (k, JStr v)) event_meta)),
                       (''email'', JStr email_text),
                       (''style_rules'', JObj [(''subject_max_chars'', JInt 55),
                                               (''preview_max_chars'', JInt 120),
                                               (''body_max_chars'', JInt 1800)])]))]) w
   \<and> length (filter is_chat (trace (snd (call_llm env event_meta email_text w)))) =
       Suc (length (filter is_chat (trace w)))
   \<and> sample_dumps None (user_prompt [(''id'', ''EVT1''), (''title'', ''Launch'')] ''Join us!'') =
       ''{\"event\": {\"id\": \"EVT1\", \"title\": \"Launch\"}, \"email\": \"Join us!\", '' @
       ''\"style_rules\": {\"subject_max_chars\": 55, \"preview_max_chars\": 120, '' @
       ''\"body_max_chars\": 1800}}''"
proof -
  obtain r w1 where c: "call_llm env event_meta email_text w = (r, w1)" by force
  note w1 = call_llm_world[OF c]
  have a: "snd (call_llm env event_meta email_text w) =
     emit (ChatCompletion ''gpt-4o-mini''
            [(''system'', SYSTEM_PROMPT),
             (''user'', json_dumps env None
                (JObj [(''event'', JObj (map (\<lambda>(k, v). (k, JStr v)) event_meta)),
                       (''email'', JStr email_text),
                       (''style_rules'', JObj [(''subject_max_chars'', JInt 55),
                                               (''preview_max_chars'', JInt 120),
                                               (''body_max_chars'', JInt 1800)])]))]) w"
    using c w1 by (simp add: user_prompt_def STYLE_RULES_def)
  have b: "length (filter is_chat (trace (snd (call_llm env event_meta email_text w)))) =
       Suc (length (filter is_chat (trace w)))"
    using c w1 by (simp add: trace_emit)
  have s: "str_nat 55 = ''55''" "str_nat 120 = ''120''" "str_nat 1800 = ''1800''"
    by (simp_all add: str_nat.simps digit_def)
  have d: "sample_dumps None (user_prompt [(''id'', ''EVT1''), (''title'', ''Launch'')] ''Join us!'') =
       ''{\"event\": {\"id\": \"EVT1\", \"title\": \"Launch\"}, \"email\": \"Join us!\", '' @
       ''\"style_rules\": {\"subject_max_chars\": 55, \"preview_max_chars\": 120, '' @
       ''\"body_max_chars\": 1800}}''"
    by (simp add: sample_dumps_def user_prompt_def STYLE_RULES_def quote_def
        newline_indent_def item_separator_def str_int_def s)
  from a b d show ?thesis by blast
qed

subsection \<open>C7: missing source file\<close>

text \<open>
  C7. If \<open>events.csv\<close> does not exist, \<open>main\<close> raises \<open>FileNotFoundError\<close> with the
  source's message at once: the only thing the run has done is the existence check on
  \<open>events.csv\<close>, which is no access to the draft directory, and the outcome is the same
  whatever the draft directory is (so it is not consulted).
\<close>

theorem missing_source_file_aborts:
  assumes "event_csv env = None"
  shows "main env w =
           (Inl (FileNotFoundError (''events.csv not found '' @ endash @ '' create your source'' @
                   nbhyphen @ ''of'' @ nbhyphen @ ''truth file first.'')),
            emit (PathExists ''events.csv'') w)
       \<and> \<not> touches_emails (PathExists ''events.csv'')
       \<and> main (env\<lparr>email_dir := d\<rparr>) w = main env w"
  using assms by (simp add: main_def load_events_def Let_def EVENT_CSV_def)

theorem missing_source_file_aborts_witness:
  "event_csv (sample_env\<lparr>event_csv := None\<rparr>) = None
   \<and> fst (main (sample_env\<lparr>event_csv := None\<rparr>) world0) =
       Inl (FileNotFoundError (''events.csv not found '' @ endash @ '' create your source'' @
                   nbhyphen @ ''of'' @ nbhyphen @ ''truth file first.''))
   \<and> trace (snd (main (sample_env\<lparr>event_csv := None\<rparr>) world0)) = [PathExists ''events.csv'']
   \<and> main (sample_env\<lparr>event_csv := None, email_dir := None\<rparr>) world0 =
       main (sample_env\<lparr>event_csv := None\<rparr>) world0"
proof -
  have h: "event_csv (sample_env\<lparr>event_csv := None\<rparr>) = None" by simp
  show ?thesis
    using missing_source_file_aborts[OF h, of world0 None]
    by (simp add: trace_emit world0_def)
qed

subsection \<open>C8: a draft directory without drafts\<close>

text \<open>
  C8. Suppose the source file loads and the draft directory exists but has no entry
  ending in \<open>.md\<close> or \<open>.txt\<close>. Then after loading, the run checks that the directory
  exists, globs twice, and, when a webhook URL is configured (and the post returns), posts
  exactly one message, whose text is the header \<open>QC Summary (<timestamp>):\<close> and a line
  break followed by the empty digest; the run ends without error. Without a webhook it ends
  without error right after the globs. No report file is written or changed.
\<close>

theorem empty_draft_directory:
  assumes "load_events env w = (Inr events, w1)"
      and "email_dir env = Some entries"
      and "\<forall>n\<in>set (map fst entries). \<not> endswith n ''.md'' \<and> \<not> endswith n ''.txt''"
  shows "(\<not> truthy (slack_webhook_url env) \<longrightarrow>
            main env w =
              (Inr (), emit (Glob ''emails'' ''*.txt'') (emit (Glob ''emails'' ''*.md'')
                         (emit (PathExists ''emails'') w1))))
       \<and> (slack_webhook_url env = Some url \<and> url \<noteq> [] \<and>
          requests_post env url
            (JObj [(''text'', JStr (''QC Summary ('' @ utcnow_strftime env @ ''):'' @ [CHR 0x0A]))]) = None \<longrightarrow>
            main env w =
              (Inr (),
               emit (HttpPost url
                      (JObj [(''text'', JStr (''QC Summary ('' @ utcnow_strftime env @ ''):'' @ [CHR 0x0A]))]))
                 (emit (Glob ''emails'' ''*.txt'') (emit (Glob ''emails'' ''*.md'')
                    (emit (PathExists ''emails'') w1)))))
       \<and> reports (snd (main env w)) = reports w1
       \<and> filter is_write (trace (snd (main env w))) = filter is_write (trace w1)
       \<and> join [CHR 0x0A] (summary_lines env []) = []"
proof -
  let ?w2 = "emit (Glob ''emails'' ''*.txt'') (emit (Glob ''emails'' ''*.md'')
               (emit (PathExists ''emails'') w1))"
  have no_md: "glob (map fst entries) ''.md'' = []"
    using assms(3) by (intro glob_none) blast
  have no_txt: "glob (map fst entries) ''.txt'' = []"
    using assms(3) by (intro glob_none) blast
  have g: "gather_emails env w1 = (Inr [], ?w2)"
    using assms(2) by (simp add: gather_emails_def Let_def EMAIL_DIR_def no_md no_txt)
  have m: "main env w =
             (if truthy (slack_webhook_url env) then send_slack env (summary_message env []) ?w2
              else (Inr (), ?w2))"
    using assms(1) g by (simp add: main_def)
  have msg: "summary_message env [] = ''QC Summary ('' @ utcnow_strftime env @ ''):'' @ [CHR 0x0A]"
    by (simp add: summary_message_def summary_header_def summary_lines_def)
  have a: "\<not> truthy (slack_webhook_url env) \<longrightarrow> main env w = (Inr (), ?w2)"
    using m by simp
  have b: "slack_webhook_url env = Some url \<and> url \<noteq> [] \<and>
          requests_post env url
            (JObj [(''text'', JStr (''QC Summary ('' @ utcnow_strftime env @ ''):'' @ [CHR 0x0A]))]) = None \<longrightarrow>
            main env w =
              (Inr (),
               emit (HttpPost url
                      (JObj [(''text'', JStr (''QC Summary ('' @ utcnow_strftime env @ ''):'' @ [CHR 0x0A]))]))
                 ?w2)"
    using m msg by (auto simp: truthy_def send_slack_def Let_def)
  have c: "reports (snd (main env w)) = reports w1"
    using m by (auto simp: send_slack_def Let_def reports_emit split: option.splits)
  have d: "filter is_write (trace (snd (main env w))) = filter is_write (trace w1)"
    using m by (auto simp: send_slack_def Let_def trace_emit split: option.splits)
  have e: "join [CHR 0x0A] (summary_lines env []) = []"
    by (simp add: summary_lines_def)
  from a b c d e show ?thesis by blast
qed

theorem empty_draft_directory_witness:
  "load_events env_no_drafts world0 =
     (Inr [''EVT23'' \<mapsto> [(''event_id'', ''EVT23''), (''title'', ''Launch'')]],
      emit (ReadCsv ''events.csv'') (emit (PathExists ''events.csv'') world0))
   \<and> email_dir env_no_drafts = Some [(''notes.rst'', Some ''internal'')]
   \<and> \<not> endswith ''notes.rst'' ''.md'' \<and> \<not> endswith ''notes.rst'' ''.txt''
   \<and> slack_webhook_url env_no_drafts = Some ''https://hooks.example/T1''
   \<and> fst (main env_no_drafts world0) = Inr ()
   \<and> trace (snd (main env_no_drafts world0)) =
       [PathExists ''events.csv'', ReadCsv ''events.csv'', PathExists ''emails'',
        Glob ''emails'' ''*.md'', Glob ''emails'' ''*.txt'',
        HttpPost ''https://hooks.example/T1''
          (JObj [(''text'', JStr (''QC Summary (2024'' @ nbhyphen @ ''05'' @ nbhyphen @
                                   ''01 09:30):'' @ [CHR 0x0A]))])]
   \<and> main (env_no_drafts\<lparr>slack_webhook_url := None\<rparr>) world0 =
       (Inr (), emit (Glob ''emails'' ''*.txt'') (emit (Glob ''emails'' ''*.md'')
          (emit (PathExists ''emails'')
             (emit (ReadCsv ''events.csv'') (emit (PathExists ''events.csv'') world0)))))"
proof -
  have l: "load_events env_no_drafts world0 =
     (Inr [''EVT23'' \<mapsto> [(''event_id'', ''EVT23''), (''title'', ''Launch'')]],
      emit (ReadCsv ''events.csv'') (emit (PathExists ''events.csv'') world0))"
    by (simp add: load_events_def env_no_drafts_def sample_env_def Let_def EVENT_CSV_def)
  have l': "load_events (env_no_drafts\<lparr>slack_webhook_url := None\<rparr>) world0 =
     (Inr [''EVT23'' \<mapsto> [(''event_id'', ''EVT23''), (''title'', ''Launch'')]],
      emit (ReadCsv ''events.csv'') (emit (PathExists ''events.csv'') world0))"
    by (simp add: load_events_def env_no_drafts_def sample_env_def Let_def EVENT_CSV_def)
  have d: "email_dir env_no_drafts = Some [(''notes.rst'', Some ''internal'')]"
    by (simp add: env_no_drafts_def)
  have d': "email_dir (env_no_drafts\<lparr>slack_webhook_url := None\<rparr>) = Some [(''notes.rst'', Some ''internal'')]"
    by (simp add: env_no_drafts_def)
  have n: "\<forall>n\<in>set (map fst [(''notes.rst'', Some ''internal'' :: string option)]).
        \<not> endswith n ''.md'' \<and> \<not> endswith n ''.txt''"
    by (simp add: endswith_def)
  have u: "slack_webhook_url env_no_drafts = Some ''https://hooks.example/T1''"
    by (simp add: env_no_drafts_def sample_env_def)
  have p: "requests_post env_no_drafts ''https://hooks.example/T1'' b = None" for b
    by (simp add: env_no_drafts_def sample_env_def)
  have s: "utcnow_strftime env_no_drafts = ''2024'' @ nbhyphen @ ''05'' @ nbhyphen @ ''01 09:30''"
    by (simp add: env_no_drafts_def sample_env_def)
  show ?thesis
    using empty_draft_directory[OF l d n, of "''https://hooks.example/T1''"]
      empty_draft_directory[OF l' d' n, of "''https://hooks.example/T1''"]
      l d n u p s
    by (simp add: trace_emit world0_def truthy_def)
qed

subsection \<open>C9: \<open>.md\<close> drafts before \<open>.txt\<close> drafts\<close>



subsection \<open>C6: a reply that is not JSON\<close>

text \<open>
  C6. Let the collected drafts be \<open>pre @ f # rest\<close>, let the drafts \<open>pre\<close> be processed
  without error, leaving the state \<open>w3\<close>, and let the reply for \<open>f\<close> (a matched, readable
  draft) be rejected by \<open>json.loads\<close>. Then \<open>main\<close> ends with \<open>JSONDecodeError\<close>; the
  report files are exactly those of \<open>w3\<close>, unchanged; after \<open>w3\<close> the run only reads \<open>f\<close>
  and sends its request, so nothing is written for \<open>f\<close> or for the drafts \<open>rest\<close>; and
  no webhook post is made.
\<close>

theorem malformed_reply_stops_run:
  assumes "load_events env w = (Inr events, w1)"
      and "gather_emails env w1 = (Inr (pre @ f # rest), w2)"
      and "main_loop env events pre [] w2 = (Inr overall, w3)"
      and "events (extract_event_id f) = Some event_meta"
      and "read_text env f w3 = (Inr email_text, w4)"
      and "chat_completions_create env (n_calls w4) ''gpt-4o-mini''
             [(''system'', SYSTEM_PROMPT),
              (''user'', json_dumps env None (user_prompt event_meta email_text))] = Inr content"
      and "json_loads env content = None"
  shows "fst (main env w) = Inl JSONDecodeError
       \<and> reports (snd (main env w)) = reports w3
       \<and> trace (snd (main env w)) =
           trace w3 @ [ReadText (''emails/'' @ f),
                       ChatCompletion ''gpt-4o-mini''
                         [(''system'', SYSTEM_PROMPT),
                          (''user'', json_dumps env None (user_prompt event_meta email_text))]]
       \<and> filter is_post (trace (snd (main env w))) = filter is_post (trace w)"
proof -
  let ?call = "ChatCompletion ''gpt-4o-mini''
                 [(''system'', SYSTEM_PROMPT),
                  (''user'', json_dumps env None (user_prompt event_meta email_text))]"
  have w4: "w4 = emit (ReadText (''emails/'' @ f)) w3"
    using read_text_world[OF assms(5)] by (simp add: EMAIL_DIR_def)
  have c: "call_llm env event_meta email_text w4 = (Inl JSONDecodeError, emit ?call w4)"
    using assms(6,7) by (simp add: call_llm_def Let_def)
  have p: "process_email env events f overall w3 = (Inl JSONDecodeError, emit ?call w4)"
    using assms(4,5) c by (simp add: process_email_def Let_def)
  have l: "main_loop env events (pre @ f # rest) [] w2 = (Inl JSONDecodeError, emit ?call w4)"
    using assms(3) p by (simp add: main_loop_append)
  have m: "main env w = (Inl JSONDecodeError, emit ?call w4)"
    using assms(1,2) l by (simp add: main_def)
  have t1: "\<exists>es. trace w1 = trace w @ es \<and> (\<forall>e\<in>set es. \<not> is_post e)"
    using assms(1) by (auto simp: load_events_def Let_def trace_emit split: option.splits)
  have t2: "\<exists>es. trace w2 = trace w1 @ es \<and> (\<forall>e\<in>set es. \<not> is_post e)"
    using assms(2) by (auto simp: gather_emails_def Let_def trace_emit split: option.splits)
  have t3: "\<exists>es. trace w3 = trace w2 @ es \<and> (\<forall>e\<in>set es. \<not> is_post e)"
    using main_loop_trace[OF assms(3)] .
  from t1 t2 t3 have "filter is_post (trace w3) = filter is_post (trace w)"
    by (auto simp: filter_empty_conv)
  with m w4 show ?thesis
    by (simp add: trace_emit reports_emit)
qed

theorem malformed_reply_stops_run_witness:
  "fst (load_events env_bad_reply world0) = Inr sample_events
   \<and> fst (gather_emails env_bad_reply (snd (load_events env_bad_reply world0))) =
       Inr ([''EVT23_a.md''] @ ''EVT23_b.md'' # [''EVT23_c.txt''])
   \<and> sample_events (extract_event_id ''EVT23_b.md'') =
       Some [(''event_id'', ''EVT23''), (''title'', ''Launch'')]
   \<and> json_loads env_bad_reply ''Sorry, I cannot help.'' = None
   \<and> fst (main env_bad_reply world0) = Inl JSONDecodeError
   \<and> reports (snd (main env_bad_reply world0)) ''EVT23_a_report.json'' =
       Some (sample_dumps (Some 2) (JObj [(''errors'', JList []),
                                            (''warnings'', JList [JStr ''long subject'']),
                                            (''traffic_light'', JStr ''YELLOW'')]))
   \<and> reports (snd (main env_bad_reply world0)) ''EVT23_b_report.json'' = None
   \<and> reports (snd (main env_bad_reply world0)) ''EVT23_c_report.json'' = None
   \<and> filter is_post (trace (snd (main env_bad_reply world0))) = []"
proof -
  let ?w1 = "snd (load_events env_bad_reply world0)"
  let ?w2 = "snd (gather_emails env_bad_reply ?w1)"
  let ?w3 = "snd (main_loop env_bad_reply sample_events [''EVT23_a.md''] [] ?w2)"
  let ?w4 = "snd (read_text env_bad_reply ''EVT23_b.md'' ?w3)"
  let ?meta = "[(''event_id'', ''EVT23''), (''title'', ''Launch'')]"
  have a1: "fst (load_events env_bad_reply world0) = Inr sample_events"
    by (simp add: load_events_def env_bad_reply_def sample_env_def sample_events_def Let_def)
  then have h1: "load_events env_bad_reply world0 = (Inr sample_events, ?w1)"
    by (simp add: prod_eq_iff)
  have a2: "fst (gather_emails env_bad_reply ?w1) =
              Inr ([''EVT23_a.md''] @ ''EVT23_b.md'' # [''EVT23_c.txt''])"
    by (simp add: gather_emails_def env_bad_reply_def sample_env_def Let_def glob_def endswith_def)
  then have h2: "gather_emails env_bad_reply ?w1 =
              (Inr ([''EVT23_a.md''] @ ''EVT23_b.md'' # [''EVT23_c.txt'']), ?w2)"
    by (simp add: prod_eq_iff)
  have "fst (main_loop env_bad_reply sample_events [''EVT23_a.md''] [] ?w2) =
          Inr [(''EVT23_a.md'', JStr ''YELLOW'')]"
    by code_simp
  then have h3: "main_loop env_bad_reply sample_events [''EVT23_a.md''] [] ?w2 =
          (Inr [(''EVT23_a.md'', JStr ''YELLOW'')], ?w3)"
    by (simp add: prod_eq_iff)
  have h4: "sample_events (extract_event_id ''EVT23_b.md'') = Some ?meta"
    by code_simp
  have "fst (read_text env_bad_reply ''EVT23_b.md'' ?w3) = Inr ''Hurry''"
    by (simp add: read_text_def env_bad_reply_def sample_env_def Let_def)
  then have h5: "read_text env_bad_reply ''EVT23_b.md'' ?w3 = (Inr ''Hurry'', ?w4)"
    by (simp add: prod_eq_iff)
  have n: "n_calls ?w4 = 1"
    by code_simp
  have h6: "chat_completions_create env_bad_reply (n_calls ?w4) ''gpt-4o-mini''
             [(''system'', SYSTEM_PROMPT),
              (''user'', json_dumps env_bad_reply None (user_prompt ?meta ''Hurry''))] =
            Inr ''Sorry, I cannot help.''"
    unfolding n by (simp add: env_bad_reply_def)
  have h7: "json_loads env_bad_reply ''Sorry, I cannot help.'' = None"
    by code_simp
  note inst = malformed_reply_stops_run[OF h1 h2 h3 h4 h5 h6 h7]
  have r: "reports ?w3 ''EVT23_a_report.json'' =
       Some (sample_dumps (Some 2) (JObj [(''errors'', JList []),
                                            (''warnings'', JList [JStr ''long subject'']),
                                            (''traffic_light'', JStr ''YELLOW'')]))"
      "reports ?w3 ''EVT23_b_report.json'' = None"
      "reports ?w3 ''EVT23_c_report.json'' = None"
    by code_simp+
  have p: "filter is_post (trace world0) = []"
    by (simp add: world0_def)
  from inst have e1: "fst (main env_bad_reply world0) = Inl JSONDecodeError"
    by blast
  from inst have e2: "reports (snd (main env_bad_reply world0)) = reports ?w3"
    by blast
  from inst have "filter is_post (trace (snd (main env_bad_reply world0))) =
      filter is_post (trace world0)"
    by blast
  with p have e3: "filter is_post (trace (snd (main env_bad_reply world0))) = []"
    by (simp only:)
  note r' = r[folded e2]
  from a1 a2 h4 h7 e1 r' e3 show ?thesis
    by blast
qed

subsection \<open>C10: a reply without some of the keys\<close>

text \<open>
  C10. Let the parsed reply for a matched, readable draft be a JSON object in which any of
  the keys \<open>traffic_light\<close>, \<open>errors\<close>, \<open>warnings\<close> may be missing, the values of
  those present being usable (a hashable traffic light, sized \<open>errors\<close> and
  \<open>warnings\<close>). Then the loop body raises nothing. After the request it does exactly two
  things: it writes \<open>json.dumps\<close> with indent 2 of the reply as parsed, so without the
  missing keys, to the report file of the draft, which then holds that text; and it prints
  the summary line. It appends the draft to the accumulated list. Where \<open>traffic_light\<close>
  is missing, the line and the digest entry show \<open>?\<close>; where \<open>errors\<close> or \<open>warnings\<close>
  is missing, the count shown is \<open>0\<close>.
\<close>

theorem missing_keys_use_defaults:
  assumes "events (extract_event_id f) = Some event_meta"
      and "read_text env f w = (Inr email_text, w1)"
      and "call_llm env event_meta email_text w1 = (Inr (JObj kvs), w2)"
      and "\<forall>v. map_of kvs ''traffic_light'' = Some v \<longrightarrow> hashable v"
      and "\<forall>v. map_of kvs ''errors'' = Some v \<longrightarrow> (\<exists>n. py_len v = Inr n)"
      and "\<forall>v. map_of kvs ''warnings'' = Some v \<longrightarrow> (\<exists>n. py_len v = Inr n)"
  shows "\<exists>light shown n_err n_warn.
           process_email env events f overall w =
             (Inr (overall @ [(f, light)]),
              emit (Print (f @ '': '' @ shown @ '' '' @ endash @ '' '' @ str_nat n_err @
                           '' errors, '' @ str_nat n_warn @ '' warnings''))
                (write_report (stem f @ ''_report.json'')
                   (json_dumps env (Some 2) (JObj kvs)) w2))
         \<and> reports (snd (process_email env events f overall w)) (stem f @ ''_report.json'') =
             Some (json_dumps env (Some 2) (JObj kvs))
         \<and> trace (snd (process_email env events f overall w)) =
             trace w2 @
             [WriteText (''reports/'' @ stem f @ ''_report.json'')
                (json_dumps env (Some 2) (JObj kvs)),
              Print (f @ '': '' @ shown @ '' '' @ endash @ '' '' @ str_nat n_err @
                     '' errors, '' @ str_nat n_warn @ '' warnings'')]
         \<and> (map_of kvs ''traffic_light'' = None \<longrightarrow>
              light = JStr ''?'' \<and> shown = ''?'' \<and>
              summary_lines env [(f, light)] = [''*'' @ f @ ''* '' @ rarrow @ '' ?''])
         \<and> (map_of kvs ''errors'' = None \<longrightarrow> n_err = 0 \<and> str_nat n_err = ''0'')
         \<and> (map_of kvs ''warnings'' = None \<longrightarrow> n_warn = 0 \<and> str_nat n_warn = ''0'')"
proof -
  let ?light = "dict_get kvs ''traffic_light'' (JStr ''?'')"
  have hl: "hashable ?light"
    using assms(4) by (cases "map_of kvs ''traffic_light''") (simp_all add: dict_get_def)
  then have "\<exists>shown. colour_light env ?light = Inr shown"
    by (simp add: colour_light_def)
  then obtain shown where cl: "colour_light env ?light = Inr shown"
    by blast
  obtain n_err where ne: "py_len (dict_get kvs ''errors'' (JList [])) = Inr n_err"
    using assms(5) by (cases "map_of kvs ''errors''") (auto simp: dict_get_def)
  obtain n_warn where nw: "py_len (dict_get kvs ''warnings'' (JList [])) = Inr n_warn"
    using assms(6) by (cases "map_of kvs ''warnings''") (auto simp: dict_get_def)
  have s: "cli_summary env f (JObj kvs) =
             Inr (f @ '': '' @ py_str env shown @ '' '' @ endash @ '' '' @ str_nat n_err @
                  '' errors, '' @ str_nat n_warn @ '' warnings'', ?light)"
    using cl ne nw by (simp add: cli_summary_def Let_def)
  have p: "process_email env events f overall w =
             (Inr (overall @ [(f, ?light)]),
              emit (Print (f @ '': '' @ py_str env shown @ '' '' @ endash @ '' '' @ str_nat n_err @
                           '' errors, '' @ str_nat n_warn @ '' warnings''))
                (write_report (stem f @ ''_report.json'')
                   (json_dumps env (Some 2) (JObj kvs)) w2))"
    using process_email_reported[where events = events and f = f, OF assms(1,2,3)] s by simp
  have a: "map_of kvs ''traffic_light'' = None \<longrightarrow>
              ?light = JStr ''?'' \<and> py_str env shown = ''?'' \<and>
              summary_lines env [(f, ?light)] = [''*'' @ f @ ''* '' @ rarrow @ '' ?'']"
    using cl by (auto simp: dict_get_def colour_light_def summary_lines_def)
  have b: "map_of kvs ''errors'' = None \<longrightarrow> n_err = 0 \<and> str_nat n_err = ''0''"
    using ne by (auto simp: dict_get_def str_nat_0)
  have c: "map_of kvs ''warnings'' = None \<longrightarrow> n_warn = 0 \<and> str_nat n_warn = ''0''"
    using nw by (auto simp: dict_get_def str_nat_0)
  have r: "reports (snd (process_email env events f overall w)) (stem f @ ''_report.json'') =
             Some (json_dumps env (Some 2) (JObj kvs))"
    by (simp add: p reports_emit reports_write_report)
  have t: "trace (snd (process_email env events f overall w)) =
             trace w2 @
             [WriteText (''reports/'' @ stem f @ ''_report.json'')
                (json_dumps env (Some 2) (JObj kvs)),
              Print (f @ '': '' @ py_str env shown @ '' '' @ endash @ '' '' @ str_nat n_err @
                     '' errors, '' @ str_nat n_warn @ '' warnings'')]"
    by (simp add: p trace_emit trace_write_report REPORT_DIR_def)
  show ?thesis
    apply (rule exI[where x = "?light"])
    apply (rule exI[where x = "py_str env shown"])
    apply (rule exI[where x = n_err])
    apply (rule exI[where x = n_warn])
    using p r t a b c apply blast
    done
qed

theorem missing_keys_use_defaults_witness:
  "sample_events (extract_event_id ''EVT23_invite_v1.md'') =
     Some [(''event_id'', ''EVT23''), (''title'', ''Launch'')]
   \<and> fst (read_text (env_reply reply_partial) ''EVT23_invite_v1.md'' world0) = Inr ''Join us!''
   \<and> fst (call_llm (env_reply reply_partial) [(''event_id'', ''EVT23''), (''title'', ''Launch'')]
          ''Join us!'' (snd (read_text (env_reply reply_partial) ''EVT23_invite_v1.md'' world0))) =
       Inr (JObj [(''errors'', JList [JStr ''wrong date''])])
   \<and> fst (process_email (env_reply reply_partial) sample_events ''EVT23_invite_v1.md'' [] world0) =
       Inr [(''EVT23_invite_v1.md'', JStr ''?'')]
   \<and> summary_lines (env_reply reply_partial) [(''EVT23_invite_v1.md'', JStr ''?'')] =
       [''*EVT23_invite_v1.md* '' @ rarrow @ '' ?'']
   \<and> last (trace (snd (process_email (env_reply reply_partial) sample_events
                          ''EVT23_invite_v1.md'' [] world0))) =
       Print (''EVT23_invite_v1.md: ? '' @ endash @ '' 1 errors, 0 warnings'')
   \<and> reports (snd (process_email (env_reply reply_partial) sample_events
                      ''EVT23_invite_v1.md'' [] world0)) ''EVT23_invite_v1_report.json'' =
       Some (sample_dumps (Some 2) (JObj [(''errors'', JList [JStr ''wrong date''])]))
   \<and> sample_dumps (Some 2) (JObj [(''errors'', JList [JStr ''wrong date''])]) =
       ''{'' @ [CHR 0x0A] @ ''  \"errors\": ['' @ [CHR 0x0A] @ ''    \"wrong date\"'' @ [CHR 0x0A] @
       ''  ]'' @ [CHR 0x0A] @ ''}''"
proof -
  let ?E = "env_reply reply_partial"
  let ?f = "''EVT23_invite_v1.md''"
  let ?meta = "[(''event_id'', ''EVT23''), (''title'', ''Launch'')]"
  let ?kvs = "[(''errors'', JList [JStr ''wrong date''])]"
  let ?w1 = "snd (read_text ?E ?f world0)"
  let ?w2 = "snd (call_llm ?E ?meta ''Join us!'' ?w1)"
  have h1: "sample_events (extract_event_id ?f) = Some ?meta"
    by code_simp
  have a2: "fst (read_text ?E ?f world0) = Inr ''Join us!''"
    by code_simp
  then have h2: "read_text ?E ?f world0 = (Inr ''Join us!'', ?w1)"
    by (simp add: prod_eq_iff)
  have a3: "fst (call_llm ?E ?meta ''Join us!'' ?w1) = Inr (JObj ?kvs)"
    by code_simp
  then have h3: "call_llm ?E ?meta ''Join us!'' ?w1 = (Inr (JObj ?kvs), ?w2)"
    by (simp add: prod_eq_iff)
  have h4: "\<forall>v. map_of ?kvs ''traffic_light'' = Some v \<longrightarrow> hashable v"
    by simp
  have h5: "\<forall>v. map_of ?kvs ''errors'' = Some v \<longrightarrow> (\<exists>n. py_len v = Inr n)"
    by simp
  have h6: "\<forall>v. map_of ?kvs ''warnings'' = Some v \<longrightarrow> (\<exists>n. py_len v = Inr n)"
    by simp
  have m: "map_of ?kvs ''traffic_light'' = None" "map_of ?kvs ''warnings'' = None"
    by simp_all
  from missing_keys_use_defaults[where events = sample_events and f = ?f and overall = "[]",
      OF h1 h2 h3 h4 h5 h6] m
  have c4: "fst (process_email ?E sample_events ?f [] world0) = Inr [(?f, JStr ''?'')]"
   and c5: "summary_lines ?E [(?f, JStr ''?'')] = [''*'' @ ?f @ ''* '' @ rarrow @ '' ?'']"
    by auto
  have name: "stem ?f @ ''_report.json'' = ''EVT23_invite_v1_report.json''"
    by (simp add: stem_def rfind_dot_def)
  from missing_keys_use_defaults[where events = sample_events and f = ?f and overall = "[]",
      OF h1 h2 h3 h4 h5 h6]
  have "reports (snd (process_email ?E sample_events ?f [] world0)) (stem ?f @ ''_report.json'') =
          Some (json_dumps ?E (Some 2) (JObj ?kvs))"
    by blast
  then have c7: "reports (snd (process_email ?E sample_events ?f [] world0))
        ''EVT23_invite_v1_report.json'' = Some (sample_dumps (Some 2) (JObj ?kvs))"
    unfolding name by (simp add: env_reply_def sample_env_def)
  have c8: "sample_dumps (Some 2) (JObj ?kvs) =
       ''{'' @ [CHR 0x0A] @ ''  \"errors\": ['' @ [CHR 0x0A] @ ''    \"wrong date\"'' @ [CHR 0x0A] @
       ''  ]'' @ [CHR 0x0A] @ ''}''"
    by code_simp
  have c6: "last (trace (snd (process_email ?E sample_events ?f [] world0))) =
       Print (''EVT23_invite_v1.md: ? '' @ endash @ '' 1 errors, 0 warnings'')"
    by code_simp
  from h1 a2 a3 c4 c5 c6 c7 c8 show ?thesis
    by simp
qed

subsection \<open>C5: a traffic light outside GREEN, YELLOW, RED\<close>

text \<open>
  C5. Let the parsed reply for a matched, readable draft be a JSON object whose
  \<open>traffic_light\<close> is a string \<open>s\<close> other than GREEN, YELLOW and RED (and whose
  \<open>errors\<close> and \<open>warnings\<close> can be counted). Then \<open>colour_light\<close> returns \<open>s\<close>
  itself; the printed summary line carries \<open>s\<close> unchanged; the report file is the
  serialisation of the reply, whose \<open>traffic_light\<close> is \<open>s\<close>; and the digest entry of
  the draft carries \<open>s\<close> unchanged.
\<close>

theorem unknown_traffic_light_passes_through:
  assumes "events (extract_event_id f) = Some event_meta"
      and "read_text env f w = (Inr email_text, w1)"
      and "call_llm env event_meta email_text w1 = (Inr (JObj kvs), w2)"
      and "map_of kvs ''traffic_light'' = Some (JStr s)"
      and "s \<noteq> ''GREEN''" and "s \<noteq> ''YELLOW''" and "s \<noteq> ''RED''"
      and "py_len (dict_get kvs ''errors'' (JList [])) = Inr n_err"
      and "py_len (dict_get kvs ''warnings'' (JList [])) = Inr n_warn"
  shows "process_email env events f overall w =
           (Inr (overall @ [(f, JStr s)]),
            emit (Print (f @ '': '' @ s @ '' '' @ endash @ '' '' @ str_nat n_err @
                         '' errors, '' @ str_nat n_warn @ '' warnings''))
              (write_report (stem f @ ''_report.json'')
                 (json_dumps env (Some 2) (JObj kvs)) w2))
       \<and> reports (snd (process_email env events f overall w)) (stem f @ ''_report.json'') =
           Some (json_dumps env (Some 2) (JObj kvs))
       \<and> dict_get kvs ''traffic_light'' (JStr ''?'') = JStr s
       \<and> colour_light env (JStr s) = Inr (JStr s)
       \<and> summary_lines env [(f, JStr s)] = [''*'' @ f @ ''* '' @ rarrow @ '' '' @ s]"
proof -
  have l: "dict_get kvs ''traffic_light'' (JStr ''?'') = JStr s"
    using assms(4) by (simp add: dict_get_def)
  have cl: "colour_light env (JStr s) = Inr (JStr s)"
    using assms(5,6,7) by (simp add: colour_light_def)
  have s: "cli_summary env f (JObj kvs) =
             Inr (f @ '': '' @ s @ '' '' @ endash @ '' '' @ str_nat n_err @
                  '' errors, '' @ str_nat n_warn @ '' warnings'', JStr s)"
    using l cl assms(8,9) by (simp add: cli_summary_def Let_def)
  have p: "process_email env events f overall w =
           (Inr (overall @ [(f, JStr s)]),
            emit (Print (f @ '': '' @ s @ '' '' @ endash @ '' '' @ str_nat n_err @
                         '' errors, '' @ str_nat n_warn @ '' warnings''))
              (write_report (stem f @ ''_report.json'')
                 (json_dumps env (Some 2) (JObj kvs)) w2))"
    using process_email_reported[where events = events and f = f, OF assms(1,2,3)] s by simp
  have r: "reports (snd (process_email env events f overall w)) (stem f @ ''_report.json'') =
           Some (json_dumps env (Some 2) (JObj kvs))"
    by (simp add: p reports_emit reports_write_report)
  have d: "summary_lines env [(f, JStr s)] = [''*'' @ f @ ''* '' @ rarrow @ '' '' @ s]"
    by (simp add: summary_lines_def)
  from p r l cl d show ?thesis
    by blast
qed

theorem unknown_traffic_light_passes_through_witness:
  "sample_events (extract_event_id ''EVT23_invite_v1.md'') =
     Some [(''event_id'', ''EVT23''), (''title'', ''Launch'')]
   \<and> fst (read_text (env_reply reply_blue) ''EVT23_invite_v1.md'' world0) = Inr ''Join us!''
   \<and> fst (call_llm (env_reply reply_blue) [(''event_id'', ''EVT23''), (''title'', ''Launch'')]
          ''Join us!'' (snd (read_text (env_reply reply_blue) ''EVT23_invite_v1.md'' world0))) =
       Inr (JObj [(''errors'', JList [JStr ''wrong date'']), (''warnings'', JList []),
                  (''traffic_light'', JStr ''BLUE'')])
   \<and> ''BLUE'' \<noteq> ''GREEN'' \<and> ''BLUE'' \<noteq> ''YELLOW'' \<and> ''BLUE'' \<noteq> ''RED''
   \<and> fst (process_email (env_reply reply_blue) sample_events ''EVT23_invite_v1.md'' [] world0) =
       Inr [(''EVT23_invite_v1.md'', JStr ''BLUE'')]
   \<and> last (trace (snd (process_email (env_reply reply_blue) sample_events
                          ''EVT23_invite_v1.md'' [] world0))) =
       Print (''EVT23_invite_v1.md: BLUE '' @ endash @ '' 1 errors, 0 warnings'')
   \<and> reports (snd (process_email (env_reply reply_blue) sample_events
                      ''EVT23_invite_v1.md'' [] world0)) ''EVT23_invite_v1_report.json'' =
       Some (sample_dumps (Some 2)
               (JObj [(''errors'', JList [JStr ''wrong date'']), (''warnings'', JList []),
                      (''traffic_light'', JStr ''BLUE'')]))
   \<and> summary_lines (env_reply reply_blue) [(''EVT23_invite_v1.md'', JStr ''BLUE'')] =
       [''*EVT23_invite_v1.md* '' @ rarrow @ '' BLUE'']"
proof -
  let ?E = "env_reply reply_blue"
  let ?f = "''EVT23_invite_v1.md''"
  let ?meta = "[(''event_id'', ''EVT23''), (''title'', ''Launch'')]"
  let ?kvs = "[(''errors'', JList [JStr ''wrong date'']), (''warnings'', JList []),
               (''traffic_light'', JStr ''BLUE'')]"
  let ?w1 = "snd (read_text ?E ?f world0)"
  let ?w2 = "snd (call_llm ?E ?meta ''Join us!'' ?w1)"
  have h1: "sample_events (extract_event_id ?f) = Some ?meta"
    by code_simp
  have a2: "fst (read_text ?E ?f world0) = Inr ''Join us!''"
    by code_simp
  then have h2: "read_text ?E ?f world0 = (Inr ''Join us!'', ?w1)"
    by (simp add: prod_eq_iff)
  have a3: "fst (call_llm ?E ?meta ''Join us!'' ?w1) = Inr (JObj ?kvs)"
    by code_simp
  then have h3: "call_llm ?E ?meta ''Join us!'' ?w1 = (Inr (JObj ?kvs), ?w2)"
    by (simp add: prod_eq_iff)
  have h4: "map_of ?kvs ''traffic_light'' = Some (JStr ''BLUE'')"
    by simp
  have h5: "''BLUE'' \<noteq> ''GREEN''" and h6: "''BLUE'' \<noteq> ''YELLOW''" and h7: "''BLUE'' \<noteq> ''RED''"
    by simp_all
  have h8: "py_len (dict_get ?kvs ''errors'' (JList [])) = Inr 1"
    by (simp add: dict_get_def)
  have h9: "py_len (dict_get ?kvs ''warnings'' (JList [])) = Inr 0"
    by (simp add: dict_get_def)
  have sn: "str_nat 1 = ''1''" "str_nat (Suc 0) = ''1''" "str_nat 0 = ''0''"
    by (simp_all add: str_nat.simps digit_def)
  have name: "stem ?f @ ''_report.json'' = ''EVT23_invite_v1_report.json''"
    by (simp add: stem_def rfind_dot_def)
  note inst = unknown_traffic_light_passes_through[where events = sample_events and f = ?f
      and overall = "[]", OF h1 h2 h3 h4 h5 h6 h7 h8 h9]
  from inst have c1: "fst (process_email ?E sample_events ?f [] world0) = Inr [(?f, JStr ''BLUE'')]"
    by simp
  from inst obtain W where pe: "process_email ?E sample_events ?f [] world0 =
      (Inr [(?f, JStr ''BLUE'')],
       emit (Print (?f @ '': '' @ ''BLUE'' @ '' '' @ endash @ '' '' @ str_nat 1 @
                    '' errors, '' @ str_nat 0 @ '' warnings'')) W)"
    by simp
  have c2: "last (trace (snd (process_email ?E sample_events ?f [] world0))) =
       Print (''EVT23_invite_v1.md: BLUE '' @ endash @ '' 1 errors, 0 warnings'')"
    unfolding pe by (simp add: trace_emit sn)
  from inst have "reports (snd (process_email ?E sample_events ?f [] world0))
        (stem ?f @ ''_report.json'') = Some (json_dumps ?E (Some 2) (JObj ?kvs))"
    by blast
  then have c3: "reports (snd (process_email ?E sample_events ?f [] world0))
        ''EVT23_invite_v1_report.json'' = Some (sample_dumps (Some 2) (JObj ?kvs))"
    unfolding name by (simp add: env_reply_def sample_env_def)
  from inst have c4: "summary_lines ?E [(?f, JStr ''BLUE'')] =
       [''*EVT23_invite_v1.md* '' @ rarrow @ '' BLUE'']"
    by simp
  from h1 a2 a3 h5 h6 h7 c1 c2 c3 c4 show ?thesis
    by blast
qed

subsection \<open>C1: the report file\<close>

text \<open>
  C1, as stated, asks that the report file of every matched draft whose reply parses as
  JSON has exactly the keys \<open>errors\<close>, \<open>warnings\<close> and \<open>traffic_light\<close>. The program
  does not check the keys of the reply: with the reply \<open>{}\<close> the run succeeds and the
  report file holds \<open>{}\<close>, an object without keys.
\<close>

theorem report_keys_not_validated_counterexample:
  "sample_events (extract_event_id ''EVT23_invite_v1.md'') =
     Some [(''event_id'', ''EVT23''), (''title'', ''Launch'')]
   \<and> chat_completions_create (env_reply ''{}'') 0 ''gpt-4o-mini'' [] = Inr ''{}''
   \<and> json_loads (env_reply ''{}'') ''{}'' = Some (JObj [])
   \<and> fst (main (env_reply ''{}'') world0) = Inr ()
   \<and> reports (snd (main (env_reply ''{}'') world0)) ''EVT23_invite_v1_report.json'' = Some ''{}''
   \<and> \<not> has_exactly_three_keys (JObj [])"
proof -
  have a: "sample_events (extract_event_id ''EVT23_invite_v1.md'') =
     Some [(''event_id'', ''EVT23''), (''title'', ''Launch'')]"
    by code_simp
  have b: "chat_completions_create (env_reply ''{}'') 0 ''gpt-4o-mini'' [] = Inr ''{}''"
    by (simp add: env_reply_def)
  have c: "json_loads (env_reply ''{}'') ''{}'' = Some (JObj [])"
    by code_simp
  have d: "fst (main (env_reply ''{}'') world0) = Inr ()"
    by code_simp
  have e: "reports (snd (main (env_reply ''{}'') world0)) ''EVT23_invite_v1_report.json'' = Some ''{}''"
    by code_simp
  have f: "\<not> has_exactly_three_keys (JObj [])"
    by (simp add: has_exactly_three_keys_def)
  from a b c d e f show ?thesis
    by blast
qed

text \<open>
  C1, amended. For every draft whose derived identifier has a matching event record, whose
  text can be read and whose remote reply parses as JSON, the loop body writes the file
  \<open><draft-stem>_report.json\<close> in the reports directory, and its content is
  \<open>json.dumps(reply, indent=2)\<close> of the parsed reply, with whatever keys the reply has.
\<close>

theorem report_written_for_parsed_reply:
  assumes "events (extract_event_id f) = Some event_meta"
      and "read_text env f w = (Inr email_text, w1)"
      and "chat_completions_create env (n_calls w1) ''gpt-4o-mini''
             [(''system'', SYSTEM_PROMPT),
              (''user'', json_dumps env None (user_prompt event_meta email_text))] = Inr content"
      and "json_loads env content = Some report"
  shows "reports (snd (process_email env events f overall w)) (stem f @ ''_report.json'') =
           Some (json_dumps env (Some 2) report)
       \<and> WriteText (''reports/'' @ stem f @ ''_report.json'') (json_dumps env (Some 2) report)
           \<in> set (trace (snd (process_email env events f overall w)))"
proof -
  obtain w2 where c: "call_llm env event_meta email_text w1 = (Inr report, w2)"
    using assms(3,4) by (simp add: call_llm_def Let_def)
  note p = process_email_reported[where events = events and f = f and overall = overall,
      OF assms(1,2) c]
  show ?thesis
    by (cases "cli_summary env f report")
      (auto simp: p reports_emit reports_write_report trace_emit trace_write_report REPORT_DIR_def)
qed

theorem report_written_for_parsed_reply_witness:
  "sample_events (extract_event_id ''EVT23_invite_v1.md'') =
     Some [(''event_id'', ''EVT23''), (''title'', ''Launch'')]
   \<and> fst (read_text (env_reply reply_yellow) ''EVT23_invite_v1.md'' world0) = Inr ''Join us!''
   \<and> json_loads (env_reply reply_yellow) reply_yellow =
       Some (JObj [(''errors'', JList []), (''warnings'', JList [JStr ''long subject'']),
                   (''traffic_light'', JStr ''YELLOW'')])
   \<and> reports (snd (process_email (env_reply reply_yellow) sample_events
                      ''EVT23_invite_v1.md'' [] world0)) ''EVT23_invite_v1_report.json'' =
       Some (sample_dumps (Some 2)
               (JObj [(''errors'', JList []), (''warnings'', JList [JStr ''long subject'']),
                      (''traffic_light'', JStr ''YELLOW'')]))"
proof -
  let ?E = "env_reply reply_yellow"
  let ?f = "''EVT23_invite_v1.md''"
  let ?meta = "[(''event_id'', ''EVT23''), (''title'', ''Launch'')]"
  let ?report = "JObj [(''errors'', JList []), (''warnings'', JList [JStr ''long subject'']),
                       (''traffic_light'', JStr ''YELLOW'')]"
  let ?w1 = "snd (read_text ?E ?f world0)"
  have h1: "sample_events (extract_event_id ?f) = Some ?meta"
    by code_simp
  have a2: "fst (read_text ?E ?f world0) = Inr ''Join us!''"
    by code_simp
  then have h2: "read_text ?E ?f world0 = (Inr ''Join us!'', ?w1)"
    by (simp add: prod_eq_iff)
  have h3: "chat_completions_create ?E (n_calls ?w1) ''gpt-4o-mini''
             [(''system'', SYSTEM_PROMPT),
              (''user'', json_dumps ?E None (user_prompt ?meta ''Join us!''))] = Inr reply_yellow"
    by (simp add: env_reply_def)
  have h4: "json_loads ?E reply_yellow = Some ?report"
    by code_simp
  have name: "stem ?f @ ''_report.json'' = ''EVT23_invite_v1_report.json''"
    by (simp add: stem_def rfind_dot_def)
  from report_written_for_parsed_reply[where events = sample_events and f = ?f
      and overall = "[]", OF h1 h2 h3 h4]
  have "reports (snd (process_email ?E sample_events ?f [] world0))
        (stem ?f @ ''_report.json'') = Some (json_dumps ?E (Some 2) ?report)"
    by blast
  then have c: "reports (snd (process_email ?E sample_events ?f [] world0))
        ''EVT23_invite_v1_report.json'' = Some (sample_dumps (Some 2) ?report)"
    unfolding name by (simp add: env_reply_def sample_env_def)
  from h1 a2 h4 c show ?thesis
    by blast
qed

end
